theory Spec2Isabelle
  imports Complex_Main
begin

section \<open>Python values handled by \<open>openmc.model.Model\<close>\<close>

text \<open>
  \<open>Model\<close> is dynamically typed glue: every setter receives an arbitrary Python value and
  accepts or rejects it at run time. The values that can reach the class are therefore one
  datatype. The sub-objects themselves (geometry, settings, ...) are classes of the package
  that are defined elsewhere; of each, only what \<open>model.py\<close> reads is kept.
\<close>

datatype Material = Material nat
datatype Tally = Tally nat
datatype Plot = Plot nat
datatype CMFD = CMFD nat

text \<open>
  Of a geometry, \<open>model.py\<close> calls \<open>export_to_xml()\<close> and \<open>get_all_materials()\<close>; the latter
  returns an ordered dictionary from material ids to materials, here an association list.
\<close>

record Geometry =
  all_materials :: "(nat \<times> Material) list"

text \<open>
  Of the settings, \<open>model.py\<close> reads \<open>batches\<close>, \<open>dagmc\<close> and \<open>statepoint\<close> (\<open>None\<close> or a
  dictionary whose entry \<open>'batches'\<close> is a list of batch numbers).
\<close>

record Settings =
  batches :: "int option"
  dagmc :: bool
  statepoint :: "(string \<times> int list) list option"

datatype pyval =
    PNone
  | PInt int
  | PFloat real
  | PStr string
  | PList "pyval list"
  | PGeometry Geometry
  | PSettings Settings
  | PCMFD CMFD
  | PMaterial Material
  | PTally Tally
  | PPlot Plot
  | PMaterials "Material list"
  | PTallies "Tally list"
  | PPlots "Plot list"

datatype pytype =
    TNoneType | TInt | TFloat | TStr | TList | TIterable
  | TGeometry | TSettings | TCMFD | TMaterial | TTally | TPlot
  | TMaterials | TTallies | TPlots

datatype error = TypeError | ValueError | IndexError | AttributeError | IOError

fun class_of :: "pyval \<Rightarrow> pytype" where
  "class_of PNone = TNoneType"
| "class_of (PInt _) = TInt"
| "class_of (PFloat _) = TFloat"
| "class_of (PStr _) = TStr"
| "class_of (PList _) = TList"
| "class_of (PGeometry _) = TGeometry"
| "class_of (PSettings _) = TSettings"
| "class_of (PCMFD _) = TCMFD"
| "class_of (PMaterial _) = TMaterial"
| "class_of (PTally _) = TTally"
| "class_of (PPlot _) = TPlot"
| "class_of (PMaterials _) = TMaterials"
| "class_of (PTallies _) = TTallies"
| "class_of (PPlots _) = TPlots"

text \<open>
  The classes a class is an instance of: itself, its base classes, and the abstract base
  class \<open>Iterable\<close> for everything that can be iterated. \<open>Materials\<close>, \<open>Tallies\<close> and
  \<open>Plots\<close> are list subclasses.
\<close>

fun bases :: "pytype \<Rightarrow> pytype list" where
  "bases TStr = [TStr, TIterable]"
| "bases TList = [TList, TIterable]"
| "bases TMaterials = [TMaterials, TList, TIterable]"
| "bases TTallies = [TTallies, TList, TIterable]"
| "bases TPlots = [TPlots, TList, TIterable]"
| "bases t = [t]"

definition isinstance :: "pyval \<Rightarrow> pytype \<Rightarrow> bool" where
  "isinstance v t = List.member (bases (class_of v)) t"

text \<open>The items a \<open>for\<close> loop over the value yields; \<open>None\<close> when it cannot be iterated.\<close>

fun py_iter :: "pyval \<Rightarrow> pyval list option" where
  "py_iter (PStr s) = Some (map (\<lambda>c. PStr [c]) s)"
| "py_iter (PList xs) = Some xs"
| "py_iter (PMaterials ms) = Some (map PMaterial ms)"
| "py_iter (PTallies ts) = Some (map PTally ts)"
| "py_iter (PPlots ps) = Some (map PPlot ps)"
| "py_iter _ = None"

text \<open>Truth value of an object in a condition (\<open>if self.materials:\<close>).\<close>

fun truthy :: "pyval \<Rightarrow> bool" where
  "truthy PNone = False"
| "truthy (PInt i) = (i \<noteq> 0)"
| "truthy (PFloat x) = (x \<noteq> 0)"
| "truthy (PStr s) = (s \<noteq> [])"
| "truthy (PList xs) = (xs \<noteq> [])"
| "truthy (PMaterials ms) = (ms \<noteq> [])"
| "truthy (PTallies ts) = (ts \<noteq> [])"
| "truthy (PPlots ps) = (ps \<noteq> [])"
| "truthy _ = True"

section \<open>\<open>openmc.checkvalue\<close>\<close>

text \<open>
  Modelled from the spec: \<open>check_type\<close> of \<open>openmc.checkvalue\<close>, which \<open>model.py\<close> imports
  and which is not part of the sources at hand. The spec says that the type check of a
  setter raises on a mismatched type; the call sites give the arguments: the name, the
  value, the expected class (or a tuple of classes) and, optionally, the class expected of
  every item of the value. \<open>None\<close> is the normal return, \<open>Some e\<close> the exception raised.
\<close>

definition check_type :: "string \<Rightarrow> pyval \<Rightarrow> pytype list \<Rightarrow> pytype option \<Rightarrow> error option" where
  "check_type name v expected_type expected_iter_type =
     (if \<not> list_ex (isinstance v) expected_type then Some TypeError
      else case expected_iter_type of
             None \<Rightarrow> None
           | Some t \<Rightarrow>
               (case py_iter v of
                  None \<Rightarrow> Some TypeError
                | Some items \<Rightarrow> if list_all (\<lambda>item. isinstance item t) items then None
                                else Some TypeError))"

text \<open>
  Modelled from the spec: \<open>check_value\<close> of \<open>openmc.checkvalue\<close>, the enumerated-value check:
  it raises when the value is not one of the accepted values.
\<close>

definition check_value :: "string \<Rightarrow> pyval \<Rightarrow> pyval list \<Rightarrow> error option" where
  "check_value name v accepted = (if List.member accepted v then None else Some ValueError)"

section \<open>List objects\<close>

text \<open>
  \<open>del l[:]\<close> empties a list object in place and keeps its class; on an object that is no
  list it raises.
\<close>

fun del_all :: "pyval \<Rightarrow> error + pyval" where
  "del_all (PList _) = Inr (PList [])"
| "del_all (PMaterials _) = Inr (PMaterials [])"
| "del_all (PTallies _) = Inr (PTallies [])"
| "del_all (PPlots _) = Inr (PPlots [])"
| "del_all _ = Inl TypeError"

text \<open>
  \<open>l.append(x)\<close>. The three collection classes are checked lists: they admit only items of
  their item class and raise on any other.
\<close>

fun append :: "pyval \<Rightarrow> pyval \<Rightarrow> error + pyval" where
  "append (PList xs) x = Inr (PList (xs @ [x]))"
| "append (PMaterials ms) (PMaterial m) = Inr (PMaterials (ms @ [m]))"
| "append (PMaterials ms) _ = Inl TypeError"
| "append (PTallies ts) (PTally t) = Inr (PTallies (ts @ [t]))"
| "append (PTallies ts) _ = Inl TypeError"
| "append (PPlots ps) (PPlot p) = Inr (PPlots (ps @ [p]))"
| "append (PPlots ps) _ = Inl TypeError"
| "append _ _ = Inl AttributeError"

text \<open>
  The loop \<open>for x in xs: l.append(x)\<close> on the list object \<open>l\<close>. It returns the object as the
  loop leaves it, also when an \<open>append\<close> raises half-way.
\<close>

fun append_each :: "pyval \<Rightarrow> pyval list \<Rightarrow> error option \<times> pyval" where
  "append_each l [] = (None, l)"
| "append_each l (x # xs) =
     (case append l x of
        Inl e \<Rightarrow> (Some e, l)
      | Inr l' \<Rightarrow> append_each l' xs)"

section \<open>The class \<open>Model\<close>\<close>

text \<open>
  The six stored attributes (\<open>_geometry\<close>, \<open>_materials\<close>, ...), named as the properties
  that read them. Each holds whatever value its setter stored.
\<close>

record Model =
  geometry :: pyval
  materials :: pyval
  settings :: pyval
  tallies :: pyval
  cmfd :: pyval
  plots :: pyval

text \<open>
  A setter changes the object in place and may raise after it has changed it, so it
  returns the exception, if any, together with the object as it is left.
\<close>

definition geometry_setter :: "Model \<Rightarrow> pyval \<Rightarrow> error option \<times> Model" where
  "geometry_setter self v =
     (case check_type ''geometry'' v [TGeometry] None of
        Some e \<Rightarrow> (Some e, self)
      | None \<Rightarrow> (None, self\<lparr>geometry := v\<rparr>))"

definition materials_setter :: "Model \<Rightarrow> pyval \<Rightarrow> error option \<times> Model" where
  "materials_setter self v =
     (case check_type ''materials'' v [TIterable] (Some TMaterial) of
        Some e \<Rightarrow> (Some e, self)
      | None \<Rightarrow>
          if isinstance v TMaterials then (None, self\<lparr>materials := v\<rparr>)
          else (case del_all (materials self) of
                  Inl e \<Rightarrow> (Some e, self)
                | Inr l \<Rightarrow>
                    (case py_iter v of
                       None \<Rightarrow> (Some TypeError, self\<lparr>materials := l\<rparr>)
                     | Some items \<Rightarrow>
                         (case append_each l items of
                            (r, l') \<Rightarrow> (r, self\<lparr>materials := l'\<rparr>)))))"

definition settings_setter :: "Model \<Rightarrow> pyval \<Rightarrow> error option \<times> Model" where
  "settings_setter self v =
     (case check_type ''settings'' v [TSettings] None of
        Some e \<Rightarrow> (Some e, self)
      | None \<Rightarrow> (None, self\<lparr>settings := v\<rparr>))"

definition tallies_setter :: "Model \<Rightarrow> pyval \<Rightarrow> error option \<times> Model" where
  "tallies_setter self v =
     (case check_type ''tallies'' v [TIterable] (Some TTally) of
        Some e \<Rightarrow> (Some e, self)
      | None \<Rightarrow>
          if isinstance v TTallies then (None, self\<lparr>tallies := v\<rparr>)
          else (case del_all (tallies self) of
                  Inl e \<Rightarrow> (Some e, self)
                | Inr l \<Rightarrow>
                    (case py_iter v of
                       None \<Rightarrow> (Some TypeError, self\<lparr>tallies := l\<rparr>)
                     | Some items \<Rightarrow>
                         (case append_each l items of
                            (r, l') \<Rightarrow> (r, self\<lparr>tallies := l'\<rparr>)))))"

definition cmfd_setter :: "Model \<Rightarrow> pyval \<Rightarrow> error option \<times> Model" where
  "cmfd_setter self v =
     (case check_type ''cmfd'' v [TCMFD, TNoneType] None of
        Some e \<Rightarrow> (Some e, self)
      | None \<Rightarrow> (None, self\<lparr>cmfd := v\<rparr>))"

definition plots_setter :: "Model \<Rightarrow> pyval \<Rightarrow> error option \<times> Model" where
  "plots_setter self v =
     (case check_type ''plots'' v [TIterable] (Some TPlot) of
        Some e \<Rightarrow> (Some e, self)
      | None \<Rightarrow>
          if isinstance v TPlots then (None, self\<lparr>plots := v\<rparr>)
          else (case del_all (plots self) of
                  Inl e \<Rightarrow> (Some e, self)
                | Inr l \<Rightarrow>
                    (case py_iter v of
                       None \<Rightarrow> (Some TypeError, self\<lparr>plots := l\<rparr>)
                     | Some items \<Rightarrow>
                         (case append_each l items of
                            (r, l') \<Rightarrow> (r, self\<lparr>plots := l'\<rparr>)))))"

text \<open>Running one step after another; an exception ends the sequence.\<close>

definition and_then ::
  "('s \<Rightarrow> error option \<times> 's) \<Rightarrow> ('s \<Rightarrow> error option \<times> 's) \<Rightarrow> 's \<Rightarrow> error option \<times> 's" where
  "and_then f g s = (case f s of (Some e, s') \<Rightarrow> (Some e, s') | (None, s') \<Rightarrow> g s')"

text \<open>
  Modelled from the spec: the objects that the constructors \<open>openmc.Geometry()\<close> and
  \<open>openmc.Settings()\<close> return when called without arguments (classes defined outside
  \<open>model.py\<close>): a geometry that refers to no material, settings with nothing set.
\<close>

definition new_Geometry :: Geometry where
  "new_Geometry = \<lparr>all_materials = []\<rparr>"

definition new_Settings :: Settings where
  "new_Settings = \<lparr>batches = None, dagmc = False, statepoint = None\<rparr>"

text \<open>
  The object before \<open>__init__\<close> has assigned anything. No attribute exists yet; the six
  first assignments of \<open>__init__\<close> never read one (each stores its argument as it is).
\<close>

definition blank :: Model where
  "blank = \<lparr>geometry = PNone, materials = PNone, settings = PNone,
            tallies = PNone, cmfd = PNone, plots = PNone\<rparr>"

definition unless_None :: "pyval \<Rightarrow> ('s \<Rightarrow> error option \<times> 's) \<Rightarrow> 's \<Rightarrow> error option \<times> 's" where
  "unless_None v f s = (if v \<noteq> PNone then f s else (None, s))"

text \<open>
  \<open>Model.__init__\<close>, with the six keyword arguments in the order of the signature. When it
  raises no object is returned.
\<close>

definition init :: "pyval \<Rightarrow> pyval \<Rightarrow> pyval \<Rightarrow> pyval \<Rightarrow> pyval \<Rightarrow> pyval \<Rightarrow> error + Model" where
  "init geometry_arg materials_arg settings_arg tallies_arg cmfd_arg plots_arg =
     (case
        (and_then (\<lambda>self. geometry_setter self (PGeometry new_Geometry))
        (and_then (\<lambda>self. materials_setter self (PMaterials []))
        (and_then (\<lambda>self. settings_setter self (PSettings new_Settings))
        (and_then (\<lambda>self. cmfd_setter self cmfd_arg)
        (and_then (\<lambda>self. tallies_setter self (PTallies []))
        (and_then (\<lambda>self. plots_setter self (PPlots []))
        (and_then (unless_None geometry_arg (\<lambda>self. geometry_setter self geometry_arg))
        (and_then (unless_None materials_arg (\<lambda>self. materials_setter self materials_arg))
        (and_then (unless_None settings_arg (\<lambda>self. settings_setter self settings_arg))
        (and_then (unless_None tallies_arg (\<lambda>self. tallies_setter self tallies_arg))
                  (unless_None plots_arg (\<lambda>self. plots_setter self plots_arg))))))))))))
        blank
      of (Some e, _) \<Rightarrow> Inl e
       | (None, self) \<Rightarrow> Inr self)"

section \<open>The world outside the object\<close>

text \<open>
  The working directory holds files; what is kept of an XML file is the object it was
  written from, of a statepoint file the combined k-effective it stores (a value with its
  standard deviation). The trace records the calls that leave the object, in order.
\<close>

type_synonym UFloat = "real \<times> real"

datatype filedata = XML pyval | H5 UFloat

type_synonym kwargs = "(string \<times> pyval) list"

datatype Operator = Operator pyval pyval pyval

datatype event =
    Wrote string
  | Ran kwargs
  | Opened string
  | Created Operator
  | Predictor Operator pyval pyval kwargs
  | Cecm Operator pyval pyval kwargs

record world =
  files :: "string \<rightharpoonup> filedata"
  trace :: "event list"

definition write_file :: "string \<Rightarrow> filedata \<Rightarrow> world \<Rightarrow> world" where
  "write_file name d w = w\<lparr>files := (files w)(name \<mapsto> d), trace := trace w @ [Wrote name]\<rparr>"

text \<open>The events of a computation that took the world from \<open>w\<close> to \<open>w'\<close>.\<close>

definition emitted :: "world \<Rightarrow> world \<Rightarrow> event list" where
  "emitted w w' = drop (length (trace w)) (trace w')"

text \<open>
  Modelled from the spec: the \<open>export_to_xml\<close> methods of the six sub-object classes
  (defined outside \<open>model.py\<close>). Each writes the file the spec names for it:
  \<open>geometry.xml\<close>, \<open>materials.xml\<close>, \<open>settings.xml\<close>, \<open>tallies.xml\<close>, \<open>plots.xml\<close>,
  \<open>cmfd.xml\<close>. A value of another class has no such method.
\<close>

fun obj_export_to_xml :: "pyval \<Rightarrow> world \<Rightarrow> error option \<times> world" where
  "obj_export_to_xml (PGeometry g) w = (None, write_file ''geometry.xml'' (XML (PGeometry g)) w)"
| "obj_export_to_xml (PMaterials ms) w = (None, write_file ''materials.xml'' (XML (PMaterials ms)) w)"
| "obj_export_to_xml (PSettings s) w = (None, write_file ''settings.xml'' (XML (PSettings s)) w)"
| "obj_export_to_xml (PTallies ts) w = (None, write_file ''tallies.xml'' (XML (PTallies ts)) w)"
| "obj_export_to_xml (PPlots ps) w = (None, write_file ''plots.xml'' (XML (PPlots ps)) w)"
| "obj_export_to_xml (PCMFD c) w = (None, write_file ''cmfd.xml'' (XML (PCMFD c)) w)"
| "obj_export_to_xml _ w = (Some AttributeError, w)"

text \<open>Attribute reads and method calls on a stored value; they raise on another class.\<close>

fun get_dagmc :: "pyval \<Rightarrow> error + bool" where
  "get_dagmc (PSettings s) = Inr (dagmc s)"
| "get_dagmc _ = Inl AttributeError"

fun get_batches :: "pyval \<Rightarrow> error + int option" where
  "get_batches (PSettings s) = Inr (batches s)"
| "get_batches _ = Inl AttributeError"

fun get_statepoint :: "pyval \<Rightarrow> error + (string \<times> int list) list option" where
  "get_statepoint (PSettings s) = Inr (statepoint s)"
| "get_statepoint _ = Inl AttributeError"

fun get_all_materials :: "pyval \<Rightarrow> error + (nat \<times> Material) list" where
  "get_all_materials (PGeometry g) = Inr (all_materials g)"
| "get_all_materials _ = Inl AttributeError"

text \<open>\<open>Model.export_to_xml\<close>\<close>

definition export_to_xml :: "Model \<Rightarrow> world \<Rightarrow> error option \<times> world" where
  "export_to_xml self =
     and_then (obj_export_to_xml (settings self))
    (and_then (\<lambda>w. case get_dagmc (settings self) of
                      Inl e \<Rightarrow> (Some e, w)
                    | Inr d \<Rightarrow> if \<not> d then obj_export_to_xml (geometry self) w else (None, w))
    (and_then (\<lambda>w. if truthy (materials self) then obj_export_to_xml (materials self) w
                    else (case get_all_materials (geometry self) of
                            Inl e \<Rightarrow> (Some e, w)
                          | Inr d \<Rightarrow> obj_export_to_xml (PMaterials (map snd d)) w))
    (and_then (\<lambda>w. if truthy (tallies self) then obj_export_to_xml (tallies self) w
                    else (None, w))
    (and_then (\<lambda>w. if cmfd self \<noteq> PNone then obj_export_to_xml (cmfd self) w
                    else (None, w))
              (\<lambda>w. if truthy (plots self) then obj_export_to_xml (plots self) w
                    else (None, w))))))"

text \<open>
  Modelled from the spec: \<open>openmc.run\<close>, the call of the external solver in the working
  directory. The solver itself is a parameter: a function from the keyword arguments and
  the files present to the files it leaves.
\<close>

definition openmc_run ::
  "(kwargs \<Rightarrow> (string \<rightharpoonup> filedata) \<Rightarrow> (string \<rightharpoonup> filedata)) \<Rightarrow> kwargs \<Rightarrow> world \<Rightarrow> world" where
  "openmc_run solver kw w = w\<lparr>files := solver kw (files w), trace := trace w @ [Ran kw]\<rparr>"

text \<open>
  Modelled from the spec: \<open>openmc.StatePoint(name).k_combined\<close>, the statepoint reader. It
  opens the named file and returns the combined k-effective stored there; a name that is
  no statepoint file in the working directory raises.
\<close>

definition StatePoint_k_combined :: "string \<Rightarrow> world \<Rightarrow> (error + UFloat) \<times> world" where
  "StatePoint_k_combined name w =
     (case files w name of
        Some (H5 k) \<Rightarrow> (Inr k, w\<lparr>trace := trace w @ [Opened name]\<rparr>)
      | _ \<Rightarrow> (Inl IOError, w\<lparr>trace := trace w @ [Opened name]\<rparr>))"

text \<open>\<open>str\<close> of an integer, and of \<open>None\<close>, as \<open>'{}'.format\<close> prints them.\<close>

fun str_nat :: "nat \<Rightarrow> string" where
  "str_nat n = (if n < 10 then [''0123456789'' ! n]
                else str_nat (n div 10) @ [''0123456789'' ! (n mod 10)])"

declare str_nat.simps [simp del]

definition str_int :: "int \<Rightarrow> string" where
  "str_int i = (if i < 0 then CHR ''-'' # str_nat (nat (- i)) else str_nat (nat i))"

fun format_n :: "int option \<Rightarrow> string" where
  "format_n None = ''None''"
| "format_n (Some i) = str_int i"

text \<open>
  The batch number \<open>n\<close> of \<open>Model.run\<close>: \<open>settings.batches\<close>, replaced by the last entry of
  \<open>settings.statepoint['batches']\<close> when \<open>settings.statepoint\<close> is a dictionary with that
  key. Indexing an empty list with \<open>[-1]\<close> raises.
\<close>

definition statepoint_n :: "pyval \<Rightarrow> error + int option" where
  "statepoint_n st =
     (case get_batches st of
        Inl e \<Rightarrow> Inl e
      | Inr n \<Rightarrow>
          (case get_statepoint st of
             Inl e \<Rightarrow> Inl e
           | Inr None \<Rightarrow> Inr n
           | Inr (Some d) \<Rightarrow>
               (case map_of d ''batches'' of
                  None \<Rightarrow> Inr n
                | Some bs \<Rightarrow> if bs = [] then Inl IndexError else Inr (Some (last bs)))))"

text \<open>\<open>Model.run\<close>\<close>

definition run ::
  "(kwargs \<Rightarrow> (string \<rightharpoonup> filedata) \<Rightarrow> (string \<rightharpoonup> filedata)) \<Rightarrow> Model \<Rightarrow> kwargs \<Rightarrow> world
     \<Rightarrow> (error + UFloat) \<times> world" where
  "run solver self kw w =
     (case export_to_xml self w of
        (Some e, w1) \<Rightarrow> (Inl e, w1)
      | (None, w1) \<Rightarrow>
          (case statepoint_n (settings self) of
             Inl e \<Rightarrow> (Inl e, openmc_run solver kw w1)
           | Inr n \<Rightarrow>
               StatePoint_k_combined (''statepoint.'' @ format_n n @ ''.h5'')
                 (openmc_run solver kw w1)))"

text \<open>
  Modelled from the spec: the depletion operator and the two integrators of
  \<open>openmc.deplete\<close> (outside \<open>model.py\<close>), black boxes of which the calls are recorded.
\<close>

definition dep_Operator :: "pyval \<Rightarrow> pyval \<Rightarrow> pyval \<Rightarrow> world \<Rightarrow> Operator \<times> world" where
  "dep_Operator g s chain_file w =
     (Operator g s chain_file, w\<lparr>trace := trace w @ [Created (Operator g s chain_file)]\<rparr>)"

definition integrator_predictor :: "Operator \<Rightarrow> pyval \<Rightarrow> pyval \<Rightarrow> kwargs \<Rightarrow> world \<Rightarrow> world" where
  "integrator_predictor op timesteps pwr kw w =
     w\<lparr>trace := trace w @ [Predictor op timesteps pwr kw]\<rparr>"

definition integrator_cecm :: "Operator \<Rightarrow> pyval \<Rightarrow> pyval \<Rightarrow> kwargs \<Rightarrow> world \<Rightarrow> world" where
  "integrator_cecm op timesteps pwr kw w =
     w\<lparr>trace := trace w @ [Cecm op timesteps pwr kw]\<rparr>"

text \<open>\<open>Model.deplete\<close>\<close>

definition deplete ::
  "Model \<Rightarrow> pyval \<Rightarrow> pyval \<Rightarrow> pyval \<Rightarrow> pyval \<Rightarrow> kwargs \<Rightarrow> world \<Rightarrow> error option \<times> world" where
  "deplete self timesteps pwr chain_file method kw w =
     (case dep_Operator (geometry self) (settings self) chain_file w of
        (op, w1) \<Rightarrow>
          if method = PStr ''predictor'' then (None, integrator_predictor op timesteps pwr kw w1)
          else if method = PStr ''cecm'' then (None, integrator_cecm op timesteps pwr kw w1)
          else (check_value ''method'' method [PStr ''cecm'', PStr ''predictor''], w1))"

text \<open>The events that are writes of a file.\<close>

fun is_write :: "event \<Rightarrow> bool" where
  "is_write (Wrote _) = True"
| "is_write _ = False"

section \<open>Well-formed models\<close>

text \<open>
  The classes the docstring of \<open>Model\<close> gives for the six attributes. \<open>__init__\<close>
  establishes them and every setter keeps them (proved below), so these are the models a
  program can hold.
\<close>

definition wf_Model :: "Model \<Rightarrow> bool" where
  "wf_Model m =
     (isinstance (geometry m) TGeometry \<and> isinstance (materials m) TMaterials \<and>
      isinstance (settings m) TSettings \<and> isinstance (tallies m) TTallies \<and>
      list_ex (isinstance (cmfd m)) [TCMFD, TNoneType] \<and> isinstance (plots m) TPlots)"

text \<open>The types the setters ask for, in the words of the documentation.\<close>

fun is_Geometry :: "pyval \<Rightarrow> bool" where
  "is_Geometry (PGeometry _) = True"
| "is_Geometry _ = False"

fun is_Settings :: "pyval \<Rightarrow> bool" where
  "is_Settings (PSettings _) = True"
| "is_Settings _ = False"

fun is_CMFD_or_None :: "pyval \<Rightarrow> bool" where
  "is_CMFD_or_None (PCMFD _) = True"
| "is_CMFD_or_None PNone = True"
| "is_CMFD_or_None _ = False"

fun is_Material :: "pyval \<Rightarrow> bool" where
  "is_Material (PMaterial _) = True"
| "is_Material _ = False"

fun is_Tally :: "pyval \<Rightarrow> bool" where
  "is_Tally (PTally _) = True"
| "is_Tally _ = False"

fun is_Plot :: "pyval \<Rightarrow> bool" where
  "is_Plot (PPlot _) = True"
| "is_Plot _ = False"

definition iterable_of :: "(pyval \<Rightarrow> bool) \<Rightarrow> pyval \<Rightarrow> bool" where
  "iterable_of P v = (case py_iter v of None \<Rightarrow> False | Some items \<Rightarrow> list_all P items)"

section \<open>Sample objects\<close>

definition empty_world :: world where
  "empty_world = \<lparr>files = Map.empty, trace = []\<rparr>"

definition sample_Geometry :: Geometry where
  "sample_Geometry = \<lparr>all_materials = [(1, Material 1), (2, Material 2)]\<rparr>"

definition sample_Settings :: Settings where
  "sample_Settings = \<lparr>batches = Some 10, dagmc = False, statepoint = Some [(''batches'', [5])]\<rparr>"

definition sample_Model :: Model where
  "sample_Model =
     \<lparr>geometry = PGeometry sample_Geometry, materials = PMaterials [],
      settings = PSettings sample_Settings, tallies = PTallies [Tally 1],
      cmfd = PNone, plots = PPlots []\<rparr>"

text \<open>A solver that leaves a statepoint file at batch 5 and another at batch 10.\<close>

definition sample_solver :: "kwargs \<Rightarrow> (string \<rightharpoonup> filedata) \<Rightarrow> (string \<rightharpoonup> filedata)" where
  "sample_solver kw fs = fs(''statepoint.5.h5'' \<mapsto> H5 (1, 0), ''statepoint.10.h5'' \<mapsto> H5 (2, 0))"


section \<open>Type checks\<close>

lemma isinstance_simps [simp]:
  "isinstance v TGeometry = is_Geometry v"
  "isinstance v TSettings = is_Settings v"
  "isinstance v TMaterial = is_Material v"
  "isinstance v TTally = is_Tally v"
  "isinstance v TPlot = is_Plot v"
  "(isinstance v TCMFD \<or> isinstance v TNoneType) = is_CMFD_or_None v"
  by (cases v; simp add: isinstance_def)+

lemma isinstance_Iterable: "isinstance v TIterable = (py_iter v \<noteq> None)"
  by (cases v; simp add: isinstance_def)

lemma isinstance_collections:
  "isinstance v TMaterials = (\<exists>ms. v = PMaterials ms)"
  "isinstance v TTallies = (\<exists>ts. v = PTallies ts)"
  "isinstance v TPlots = (\<exists>ps. v = PPlots ps)"
  by (cases v; simp add: isinstance_def)+

lemma check_type_plain:
  "check_type name v ts None = (if list_ex (isinstance v) ts then None else Some TypeError)"
  by (simp add: check_type_def)

lemma check_type_items:
  "check_type name v [TIterable] (Some t) =
     (if iterable_of (\<lambda>item. isinstance item t) v then None else Some TypeError)"
  by (cases "py_iter v"; simp add: check_type_def iterable_of_def isinstance_Iterable)

section \<open>The append loop\<close>

lemma items_Material: "list_all is_Material items \<Longrightarrow> \<exists>ms. items = map PMaterial ms"
proof (induction items)
  case Nil
  then show ?case by simp
next
  case (Cons x xs)
  then obtain m ms where "x = PMaterial m" "xs = map PMaterial ms"
    by (cases x) auto
  then have "x # xs = map PMaterial (m # ms)" by simp
  then show ?case ..
qed

lemma items_Tally: "list_all is_Tally items \<Longrightarrow> \<exists>ts. items = map PTally ts"
proof (induction items)
  case Nil
  then show ?case by simp
next
  case (Cons x xs)
  then obtain t ts where "x = PTally t" "xs = map PTally ts"
    by (cases x) auto
  then have "x # xs = map PTally (t # ts)" by simp
  then show ?case ..
qed

lemma items_Plot: "list_all is_Plot items \<Longrightarrow> \<exists>ps. items = map PPlot ps"
proof (induction items)
  case Nil
  then show ?case by simp
next
  case (Cons x xs)
  then obtain p ps where "x = PPlot p" "xs = map PPlot ps"
    by (cases x) auto
  then have "x # xs = map PPlot (p # ps)" by simp
  then show ?case ..
qed

lemma map_constructor_eq [simp]:
  "(map PMaterial ms = map PMaterial ms') = (ms = ms')"
  "(map PTally ts = map PTally ts') = (ts = ts')"
  "(map PPlot ps = map PPlot ps') = (ps = ps')"
  by (simp_all add: inj_map_eq_map inj_def)

lemma append_each_Materials:
  "append_each (PMaterials acc) (map PMaterial ms) = (None, PMaterials (acc @ ms))"
  by (induction ms arbitrary: acc) simp_all

lemma append_each_Tallies:
  "append_each (PTallies acc) (map PTally ts) = (None, PTallies (acc @ ts))"
  by (induction ts arbitrary: acc) simp_all

lemma append_each_Plots:
  "append_each (PPlots acc) (map PPlot ps) = (None, PPlots (acc @ ps))"
  by (induction ps arbitrary: acc) simp_all

section \<open>What each setter does\<close>

lemma geometry_setter_eq:
  "geometry_setter self v =
     (if is_Geometry v then (None, self\<lparr>geometry := v\<rparr>) else (Some TypeError, self))"
  by (simp add: geometry_setter_def check_type_plain)

lemma settings_setter_eq:
  "settings_setter self v =
     (if is_Settings v then (None, self\<lparr>settings := v\<rparr>) else (Some TypeError, self))"
  by (simp add: settings_setter_def check_type_plain)

lemma cmfd_setter_eq:
  "cmfd_setter self v =
     (if is_CMFD_or_None v then (None, self\<lparr>cmfd := v\<rparr>) else (Some TypeError, self))"
  by (simp add: cmfd_setter_def check_type_plain)

lemma materials_setter_reject:
  "\<not> iterable_of is_Material v \<Longrightarrow> materials_setter self v = (Some TypeError, self)"
  by (simp add: materials_setter_def check_type_items)

lemma tallies_setter_reject:
  "\<not> iterable_of is_Tally v \<Longrightarrow> tallies_setter self v = (Some TypeError, self)"
  by (simp add: tallies_setter_def check_type_items)

lemma plots_setter_reject:
  "\<not> iterable_of is_Plot v \<Longrightarrow> plots_setter self v = (Some TypeError, self)"
  by (simp add: plots_setter_def check_type_items)

lemma materials_setter_accept:
  assumes "iterable_of is_Material v" and "isinstance (materials self) TMaterials"
  shows "\<exists>ms. py_iter v = Some (map PMaterial ms) \<and>
              materials_setter self v = (None, self\<lparr>materials := PMaterials ms\<rparr>)"
proof -
  from assms(1) obtain items where "py_iter v = Some items" "list_all is_Material items"
    by (auto simp: iterable_of_def split: option.splits)
  with items_Material obtain ms where it: "py_iter v = Some (map PMaterial ms)"
    by blast
  from assms(2) obtain old where old: "materials self = PMaterials old"
    by (auto simp: isinstance_collections)
  have "materials_setter self v = (None, self\<lparr>materials := PMaterials ms\<rparr>)"
  proof (cases "isinstance v TMaterials")
    case True
    then show ?thesis using assms(1) it
      by (auto simp: materials_setter_def check_type_items isinstance_collections)
  next
    case False
    then show ?thesis using assms(1) it old
      by (simp add: materials_setter_def check_type_items append_each_Materials)
  qed
  with it show ?thesis by blast
qed

lemma tallies_setter_accept:
  assumes "iterable_of is_Tally v" and "isinstance (tallies self) TTallies"
  shows "\<exists>ts. py_iter v = Some (map PTally ts) \<and>
              tallies_setter self v = (None, self\<lparr>tallies := PTallies ts\<rparr>)"
proof -
  from assms(1) obtain items where "py_iter v = Some items" "list_all is_Tally items"
    by (auto simp: iterable_of_def split: option.splits)
  with items_Tally obtain ts where it: "py_iter v = Some (map PTally ts)"
    by blast
  from assms(2) obtain old where old: "tallies self = PTallies old"
    by (auto simp: isinstance_collections)
  have "tallies_setter self v = (None, self\<lparr>tallies := PTallies ts\<rparr>)"
  proof (cases "isinstance v TTallies")
    case True
    then show ?thesis using assms(1) it
      by (auto simp: tallies_setter_def check_type_items isinstance_collections)
  next
    case False
    then show ?thesis using assms(1) it old
      by (simp add: tallies_setter_def check_type_items append_each_Tallies)
  qed
  with it show ?thesis by blast
qed

lemma plots_setter_accept:
  assumes "iterable_of is_Plot v" and "isinstance (plots self) TPlots"
  shows "\<exists>ps. py_iter v = Some (map PPlot ps) \<and>
              plots_setter self v = (None, self\<lparr>plots := PPlots ps\<rparr>)"
proof -
  from assms(1) obtain items where "py_iter v = Some items" "list_all is_Plot items"
    by (auto simp: iterable_of_def split: option.splits)
  with items_Plot obtain ps where it: "py_iter v = Some (map PPlot ps)"
    by blast
  from assms(2) obtain old where old: "plots self = PPlots old"
    by (auto simp: isinstance_collections)
  have "plots_setter self v = (None, self\<lparr>plots := PPlots ps\<rparr>)"
  proof (cases "isinstance v TPlots")
    case True
    then show ?thesis using assms(1) it
      by (auto simp: plots_setter_def check_type_items isinstance_collections)
  next
    case False
    then show ?thesis using assms(1) it old
      by (simp add: plots_setter_def check_type_items append_each_Plots)
  qed
  with it show ?thesis by blast
qed

section \<open>Well-formedness is kept\<close>

lemma geometry_setter_wf: "wf_Model self \<Longrightarrow> wf_Model (snd (geometry_setter self v))"
  by (simp add: geometry_setter_eq wf_Model_def)

lemma settings_setter_wf: "wf_Model self \<Longrightarrow> wf_Model (snd (settings_setter self v))"
  by (simp add: settings_setter_eq wf_Model_def)

lemma cmfd_setter_wf: "wf_Model self \<Longrightarrow> wf_Model (snd (cmfd_setter self v))"
  by (simp add: cmfd_setter_eq wf_Model_def)

lemma materials_setter_wf:
  assumes "wf_Model self"
  shows "wf_Model (snd (materials_setter self v))"
proof (cases "iterable_of is_Material v")
  case True
  from assms have "isinstance (materials self) TMaterials" by (simp add: wf_Model_def)
  with True materials_setter_accept [of v self] assms show ?thesis
    by (auto simp: wf_Model_def isinstance_collections)
next
  case False
  with assms show ?thesis by (simp add: materials_setter_reject)
qed

lemma tallies_setter_wf:
  assumes "wf_Model self"
  shows "wf_Model (snd (tallies_setter self v))"
proof (cases "iterable_of is_Tally v")
  case True
  from assms have "isinstance (tallies self) TTallies" by (simp add: wf_Model_def)
  with True tallies_setter_accept [of v self] assms show ?thesis
    by (auto simp: wf_Model_def isinstance_collections)
next
  case False
  with assms show ?thesis by (simp add: tallies_setter_reject)
qed

lemma plots_setter_wf:
  assumes "wf_Model self"
  shows "wf_Model (snd (plots_setter self v))"
proof (cases "iterable_of is_Plot v")
  case True
  from assms have "isinstance (plots self) TPlots" by (simp add: wf_Model_def)
  with True plots_setter_accept [of v self] assms show ?thesis
    by (auto simp: wf_Model_def isinstance_collections)
next
  case False
  with assms show ?thesis by (simp add: plots_setter_reject)
qed

lemma and_then_wf:
  assumes "\<And>s. wf_Model s \<Longrightarrow> wf_Model (snd (f s))"
    and "\<And>s. wf_Model s \<Longrightarrow> wf_Model (snd (g s))" and "wf_Model s"
  shows "wf_Model (snd (and_then f g s))"
proof (cases "f s")
  case (Pair r s')
  with assms(1) [OF assms(3)] have "wf_Model s'" by simp
  with Pair assms(2) show ?thesis
    by (cases r) (simp_all add: and_then_def)
qed

lemma unless_None_wf:
  assumes "\<And>s. wf_Model s \<Longrightarrow> wf_Model (snd (f s))" and "wf_Model s"
  shows "wf_Model (snd (unless_None v f s))"
  using assms by (simp add: unless_None_def)

lemma and_then_None: "f s = (None, s') \<Longrightarrow> and_then f g s = g s'"
  by (simp add: and_then_def)

lemma and_then_Some: "f s = (Some e, s') \<Longrightarrow> and_then f g s = (Some e, s')"
  by (simp add: and_then_def)

lemma collection_setter_same_class:
  "materials_setter self (PMaterials ms) = (None, self\<lparr>materials := PMaterials ms\<rparr>)"
  "tallies_setter self (PTallies ts) = (None, self\<lparr>tallies := PTallies ts\<rparr>)"
  "plots_setter self (PPlots ps) = (None, self\<lparr>plots := PPlots ps\<rparr>)"
  by (simp_all add: materials_setter_def tallies_setter_def plots_setter_def check_type_items
      iterable_of_def isinstance_collections list_all_iff)

text \<open>The first six assignments of \<open>__init__\<close>, whatever follows them.\<close>

lemma init_defaults:
  "(and_then (\<lambda>self. geometry_setter self (PGeometry new_Geometry))
   (and_then (\<lambda>self. materials_setter self (PMaterials []))
   (and_then (\<lambda>self. settings_setter self (PSettings new_Settings))
   (and_then (\<lambda>self. cmfd_setter self c)
   (and_then (\<lambda>self. tallies_setter self (PTallies []))
   (and_then (\<lambda>self. plots_setter self (PPlots [])) rest)))))) blank =
   (if is_CMFD_or_None c
    then rest \<lparr>geometry = PGeometry new_Geometry, materials = PMaterials [],
               settings = PSettings new_Settings, tallies = PTallies [],
               cmfd = c, plots = PPlots []\<rparr>
    else (Some TypeError,
          blank\<lparr>geometry := PGeometry new_Geometry, materials := PMaterials [],
                settings := PSettings new_Settings\<rparr>))"
  by (simp add: and_then_def geometry_setter_eq settings_setter_eq cmfd_setter_eq
      collection_setter_same_class blank_def)

lemma init_wf:
  assumes "init g ms s ts c ps = Inr m"
  shows "wf_Model m"
proof -
  define rest where "rest =
    and_then (unless_None g (\<lambda>self. geometry_setter self g))
    (and_then (unless_None ms (\<lambda>self. materials_setter self ms))
    (and_then (unless_None s (\<lambda>self. settings_setter self s))
    (and_then (unless_None ts (\<lambda>self. tallies_setter self ts))
              (unless_None ps (\<lambda>self. plots_setter self ps)))))"
  define d where "d = \<lparr>geometry = PGeometry new_Geometry, materials = PMaterials [],
             settings = PSettings new_Settings, tallies = PTallies [],
             cmfd = c, plots = PPlots []\<rparr>"
  have keeps: "wf_Model x \<Longrightarrow> wf_Model (snd (rest x))" for x
    unfolding rest_def
    by (intro and_then_wf unless_None_wf geometry_setter_wf materials_setter_wf
        settings_setter_wf tallies_setter_wf plots_setter_wf)
  have eq: "init g ms s ts c ps =
     (case (if is_CMFD_or_None c then rest d
            else (Some TypeError,
                  blank\<lparr>geometry := PGeometry new_Geometry, materials := PMaterials [],
                        settings := PSettings new_Settings\<rparr>))
      of (Some e, _) \<Rightarrow> Inl e | (None, self) \<Rightarrow> Inr self)"
    unfolding init_def rest_def d_def by (simp only: init_defaults)
  show ?thesis
  proof (cases "is_CMFD_or_None c")
    case True
    then have "wf_Model d"
      by (simp add: d_def wf_Model_def isinstance_collections new_Geometry_def new_Settings_def)
    then have "wf_Model (snd (rest d))" by (rule keeps)
    moreover from assms True eq have "rest d = (None, m)"
      by (cases "rest d"; cases "fst (rest d)") auto
    ultimately show ?thesis by simp
  next
    case False
    with assms eq show ?thesis by simp
  qed
qed

section \<open>Claims about the setters\<close>

text \<open>
  Claim C3. Assigning a value of a wrong type to any of the six properties raises: the
  geometry must be a \<open>Geometry\<close>, the settings a \<open>Settings\<close>, cmfd a \<open>CMFD\<close> or \<open>None\<close>,
  and materials, tallies and plots an iterable whose items are all \<open>Material\<close>, \<open>Tally\<close>
  and \<open>Plot\<close> objects respectively. Whatever the model holds, a value that is not so is
  answered with a \<open>TypeError\<close>.
\<close>

theorem setters_raise_on_wrong_type:
  "(\<not> is_Geometry v \<longrightarrow> fst (geometry_setter self v) = Some TypeError) \<and>
   (\<not> iterable_of is_Material v \<longrightarrow> fst (materials_setter self v) = Some TypeError) \<and>
   (\<not> is_Settings v \<longrightarrow> fst (settings_setter self v) = Some TypeError) \<and>
   (\<not> iterable_of is_Tally v \<longrightarrow> fst (tallies_setter self v) = Some TypeError) \<and>
   (\<not> is_CMFD_or_None v \<longrightarrow> fst (cmfd_setter self v) = Some TypeError) \<and>
   (\<not> iterable_of is_Plot v \<longrightarrow> fst (plots_setter self v) = Some TypeError)"
  by (simp add: geometry_setter_eq settings_setter_eq cmfd_setter_eq
      materials_setter_reject tallies_setter_reject plots_setter_reject)

theorem setters_raise_on_wrong_type_witness:
  "\<not> is_Geometry (PInt 3) \<and> fst (geometry_setter sample_Model (PInt 3)) = Some TypeError \<and>
   \<not> iterable_of is_Material (PInt 3) \<and> fst (materials_setter sample_Model (PInt 3)) = Some TypeError \<and>
   \<not> is_Settings (PInt 3) \<and> fst (settings_setter sample_Model (PInt 3)) = Some TypeError \<and>
   \<not> iterable_of is_Tally (PInt 3) \<and> fst (tallies_setter sample_Model (PInt 3)) = Some TypeError \<and>
   \<not> is_CMFD_or_None (PInt 3) \<and> fst (cmfd_setter sample_Model (PInt 3)) = Some TypeError \<and>
   \<not> iterable_of is_Plot (PInt 3) \<and> fst (plots_setter sample_Model (PInt 3)) = Some TypeError"
  using setters_raise_on_wrong_type [of "PInt 3" sample_Model]
  by (simp add: iterable_of_def)

text \<open>
  Claim C8. An assignment that raises leaves all six stored sub-objects as they were: in a
  well-formed model, whenever a setter raises, the model after the call is the model
  before it. For materials, tallies and plots this holds because the check of every item
  is over before the stored list is emptied, and no \<open>append\<close> raises after it.
\<close>

theorem failed_assignment_keeps_state:
  "wf_Model self \<Longrightarrow>
   (fst (geometry_setter self v) \<noteq> None \<longrightarrow> snd (geometry_setter self v) = self) \<and>
   (fst (materials_setter self v) \<noteq> None \<longrightarrow> snd (materials_setter self v) = self) \<and>
   (fst (settings_setter self v) \<noteq> None \<longrightarrow> snd (settings_setter self v) = self) \<and>
   (fst (tallies_setter self v) \<noteq> None \<longrightarrow> snd (tallies_setter self v) = self) \<and>
   (fst (cmfd_setter self v) \<noteq> None \<longrightarrow> snd (cmfd_setter self v) = self) \<and>
   (fst (plots_setter self v) \<noteq> None \<longrightarrow> snd (plots_setter self v) = self)"
proof -
  assume wf: "wf_Model self"
  have m: "fst (materials_setter self v) \<noteq> None \<longrightarrow> snd (materials_setter self v) = self"
  proof (cases "iterable_of is_Material v")
    case True
    with wf materials_setter_accept [of v self] show ?thesis by (auto simp: wf_Model_def)
  next
    case False
    then show ?thesis by (simp add: materials_setter_reject)
  qed
  have t: "fst (tallies_setter self v) \<noteq> None \<longrightarrow> snd (tallies_setter self v) = self"
  proof (cases "iterable_of is_Tally v")
    case True
    with wf tallies_setter_accept [of v self] show ?thesis by (auto simp: wf_Model_def)
  next
    case False
    then show ?thesis by (simp add: tallies_setter_reject)
  qed
  have p: "fst (plots_setter self v) \<noteq> None \<longrightarrow> snd (plots_setter self v) = self"
  proof (cases "iterable_of is_Plot v")
    case True
    with wf plots_setter_accept [of v self] show ?thesis by (auto simp: wf_Model_def)
  next
    case False
    then show ?thesis by (simp add: plots_setter_reject)
  qed
  from m t p show ?thesis
    by (simp add: geometry_setter_eq settings_setter_eq cmfd_setter_eq)
qed

lemma wf_sample_Model: "wf_Model sample_Model"
  by (simp add: wf_Model_def sample_Model_def isinstance_collections)

theorem failed_assignment_keeps_state_witness:
  "wf_Model sample_Model \<and>
   fst (geometry_setter sample_Model (PList [PMaterial (Material 7), PInt 3])) \<noteq> None \<and>
   snd (geometry_setter sample_Model (PList [PMaterial (Material 7), PInt 3])) = sample_Model \<and>
   fst (materials_setter sample_Model (PList [PMaterial (Material 7), PInt 3])) \<noteq> None \<and>
   snd (materials_setter sample_Model (PList [PMaterial (Material 7), PInt 3])) = sample_Model \<and>
   fst (settings_setter sample_Model (PList [PMaterial (Material 7), PInt 3])) \<noteq> None \<and>
   snd (settings_setter sample_Model (PList [PMaterial (Material 7), PInt 3])) = sample_Model \<and>
   fst (tallies_setter sample_Model (PList [PMaterial (Material 7), PInt 3])) \<noteq> None \<and>
   snd (tallies_setter sample_Model (PList [PMaterial (Material 7), PInt 3])) = sample_Model \<and>
   fst (cmfd_setter sample_Model (PList [PMaterial (Material 7), PInt 3])) \<noteq> None \<and>
   snd (cmfd_setter sample_Model (PList [PMaterial (Material 7), PInt 3])) = sample_Model \<and>
   fst (plots_setter sample_Model (PList [PMaterial (Material 7), PInt 3])) \<noteq> None \<and>
   snd (plots_setter sample_Model (PList [PMaterial (Material 7), PInt 3])) = sample_Model"
proof -
  have wf: "wf_Model sample_Model"
    by (simp add: wf_Model_def sample_Model_def isinstance_collections)
  have r: "fst (geometry_setter sample_Model (PList [PMaterial (Material 7), PInt 3])) \<noteq> None"
    "fst (materials_setter sample_Model (PList [PMaterial (Material 7), PInt 3])) \<noteq> None"
    "fst (settings_setter sample_Model (PList [PMaterial (Material 7), PInt 3])) \<noteq> None"
    "fst (tallies_setter sample_Model (PList [PMaterial (Material 7), PInt 3])) \<noteq> None"
    "fst (cmfd_setter sample_Model (PList [PMaterial (Material 7), PInt 3])) \<noteq> None"
    "fst (plots_setter sample_Model (PList [PMaterial (Material 7), PInt 3])) \<noteq> None"
    by (simp_all add: geometry_setter_def materials_setter_def settings_setter_def
        tallies_setter_def cmfd_setter_def plots_setter_def check_type_def isinstance_def)
  from wf r failed_assignment_keeps_state [OF wf, of "PList [PMaterial (Material 7), PInt 3]"]
  show ?thesis by simp
qed

text \<open>
  Claim C10. \<open>cmfd\<close> is the only property that accepts \<open>None\<close>: the assignment stores
  \<open>None\<close>, while \<open>None\<close> assigned to any of the other five raises and changes nothing.
  A model constructed without arguments has \<open>cmfd\<close> \<open>None\<close>, a new geometry, new
  settings and three empty collections.
\<close>

theorem only_cmfd_accepts_None:
  "cmfd_setter self PNone = (None, self\<lparr>cmfd := PNone\<rparr>) \<and>
   geometry_setter self PNone = (Some TypeError, self) \<and>
   materials_setter self PNone = (Some TypeError, self) \<and>
   settings_setter self PNone = (Some TypeError, self) \<and>
   tallies_setter self PNone = (Some TypeError, self) \<and>
   plots_setter self PNone = (Some TypeError, self) \<and>
   init PNone PNone PNone PNone PNone PNone =
     Inr \<lparr>geometry = PGeometry new_Geometry, materials = PMaterials [],
          settings = PSettings new_Settings, tallies = PTallies [],
          cmfd = PNone, plots = PPlots []\<rparr>"
  by (simp add: geometry_setter_def materials_setter_def settings_setter_def
      tallies_setter_def cmfd_setter_def plots_setter_def check_type_def isinstance_def
      init_def and_then_def unless_None_def blank_def)

section \<open>Claims about \<open>deplete\<close>\<close>

text \<open>
  Claim C5. A call of \<open>deplete\<close> with a method other than \<open>'cecm'\<close> and \<open>'predictor'\<close>
  raises, the exception is the one of the enumerated-value check, and no integrator is
  invoked: the only call that leaves the object is the construction of the operator.
\<close>

theorem deplete_unknown_method_raises:
  "method \<noteq> PStr ''cecm'' \<Longrightarrow> method \<noteq> PStr ''predictor'' \<Longrightarrow>
   fst (deplete self timesteps pwr chain_file method kw w) = Some ValueError \<and>
   fst (deplete self timesteps pwr chain_file method kw w) =
     check_value ''method'' method [PStr ''cecm'', PStr ''predictor''] \<and>
   emitted w (snd (deplete self timesteps pwr chain_file method kw w)) =
     [Created (Operator (geometry self) (settings self) chain_file)]"
  by (simp add: deplete_def dep_Operator_def check_value_def emitted_def)

theorem deplete_unknown_method_raises_witness:
  "PStr ''rk4'' \<noteq> PStr ''cecm'' \<and> PStr ''rk4'' \<noteq> PStr ''predictor'' \<and>
   fst (deplete sample_Model (PList [PFloat 3600]) (PFloat 1000) PNone (PStr ''rk4'') [] empty_world)
     = Some ValueError \<and>
   emitted empty_world
     (snd (deplete sample_Model (PList [PFloat 3600]) (PFloat 1000) PNone (PStr ''rk4'') [] empty_world))
     = [Created (Operator (geometry sample_Model) (settings sample_Model) PNone)]"
  using deplete_unknown_method_raises
    [of "PStr ''rk4''" sample_Model "PList [PFloat 3600]" "PFloat 1000" PNone "[]" empty_world]
  by simp

text \<open>
  Claim C7. With method \<open>'cecm'\<close> or \<open>'predictor'\<close>, \<open>deplete\<close> invokes the integrator of
  that name exactly once, on an operator constructed from the geometry and the settings of
  the model and the given chain file, with the given timesteps, power and keyword
  arguments; it invokes nothing else and does not raise.
\<close>

theorem deplete_invokes_named_integrator:
  "deplete self timesteps pwr chain_file (PStr ''cecm'') kw w =
     (None, w\<lparr>trace := trace w @
        [Created (Operator (geometry self) (settings self) chain_file),
         Cecm (Operator (geometry self) (settings self) chain_file) timesteps pwr kw]\<rparr>) \<and>
   deplete self timesteps pwr chain_file (PStr ''predictor'') kw w =
     (None, w\<lparr>trace := trace w @
        [Created (Operator (geometry self) (settings self) chain_file),
         Predictor (Operator (geometry self) (settings self) chain_file) timesteps pwr kw]\<rparr>)"
  by (simp add: deplete_def dep_Operator_def integrator_cecm_def integrator_predictor_def)

section \<open>Exporting\<close>

lemma is_Geometry_iff: "is_Geometry v = (\<exists>g. v = PGeometry g)"
  by (cases v) simp_all

lemma is_Settings_iff: "is_Settings v = (\<exists>s. v = PSettings s)"
  by (cases v) simp_all

lemma is_CMFD_or_None_iff: "is_CMFD_or_None v = (v = PNone \<or> (\<exists>c. v = PCMFD c))"
  by (cases v) simp_all

lemma wf_Model_shape:
  assumes "wf_Model m"
  obtains g ms s ts ps where
    "geometry m = PGeometry g" "materials m = PMaterials ms" "settings m = PSettings s"
    "tallies m = PTallies ts" "plots m = PPlots ps" "cmfd m = PNone \<or> (\<exists>c. cmfd m = PCMFD c)"
  using assms
  by (auto simp: wf_Model_def isinstance_collections is_Geometry_iff is_Settings_iff
      is_CMFD_or_None_iff)

lemma files_write_file [simp]: "files (write_file name d w) = (files w)(name \<mapsto> d)"
  by (simp add: write_file_def)

lemma trace_write_file [simp]: "trace (write_file name d w) = trace w @ [Wrote name]"
  by (simp add: write_file_def)

lemma emitted_append [simp]: "trace w' = trace w @ es \<Longrightarrow> emitted w w' = es"
  by (simp add: emitted_def)

lemma emitted_write_file [simp]:
  "length (trace w) \<le> length (trace w') \<Longrightarrow>
     emitted w (write_file name d w') = emitted w w' @ [Wrote name]"
  by (simp add: emitted_def)

text \<open>The files that \<open>export_to_xml\<close> writes for a well-formed model, in order.\<close>

lemma export_to_xml_trace:
  assumes "geometry m = PGeometry g" "materials m = PMaterials ms" "settings m = PSettings s"
    "tallies m = PTallies ts" "plots m = PPlots ps" "cmfd m = PNone \<or> (\<exists>c. cmfd m = PCMFD c)"
  shows "fst (export_to_xml m w) = None \<and>
         trace (snd (export_to_xml m w)) = trace w @
           [Wrote ''settings.xml''] @
           (if \<not> dagmc s then [Wrote ''geometry.xml''] else []) @
           [Wrote ''materials.xml''] @
           (if ts \<noteq> [] then [Wrote ''tallies.xml''] else []) @
           (if cmfd m \<noteq> PNone then [Wrote ''cmfd.xml''] else []) @
           (if ps \<noteq> [] then [Wrote ''plots.xml''] else [])"
  using assms by (auto simp: export_to_xml_def and_then_def)

lemma export_to_xml_materials_file:
  assumes "geometry m = PGeometry g" "materials m = PMaterials ms" "settings m = PSettings s"
    "tallies m = PTallies ts" "plots m = PPlots ps" "cmfd m = PNone \<or> (\<exists>c. cmfd m = PCMFD c)"
  shows "files (snd (export_to_xml m w)) ''materials.xml'' =
           Some (XML (if ms \<noteq> [] then PMaterials ms else PMaterials (map snd (all_materials g))))"
  using assms by (auto simp: export_to_xml_def and_then_def)

section \<open>Claims about \<open>export_to_xml\<close>\<close>

text \<open>
  Claim C1. When the materials collection of the model is empty, \<open>export_to_xml\<close> writes a
  \<open>materials.xml\<close> built from exactly the materials the geometry refers to (the values of
  \<open>geometry.get_all_materials()\<close>, in their order); when it is not empty, the collection
  itself is exported. Either way the export does not raise and writes \<open>materials.xml\<close>
  once.
\<close>

theorem export_materials:
  "wf_Model m \<Longrightarrow> geometry m = PGeometry g \<Longrightarrow>
   fst (export_to_xml m w) = None \<and>
   count_list (emitted w (snd (export_to_xml m w))) (Wrote ''materials.xml'') = 1 \<and>
   files (snd (export_to_xml m w)) ''materials.xml'' =
     Some (XML (if materials m = PMaterials [] then PMaterials (map snd (all_materials g))
                else materials m))"
proof -
  assume wf: "wf_Model m" and g: "geometry m = PGeometry g"
  from wf obtain g' ms s ts ps where sh:
    "geometry m = PGeometry g'" "materials m = PMaterials ms" "settings m = PSettings s"
    "tallies m = PTallies ts" "plots m = PPlots ps" "cmfd m = PNone \<or> (\<exists>c. cmfd m = PCMFD c)"
    by (rule wf_Model_shape)
  from sh(1) g have [simp]: "g' = g" by simp
  from export_to_xml_trace [OF sh, of w] export_to_xml_materials_file [OF sh, of w] sh(2)
  show ?thesis by auto
qed

theorem export_materials_witness:
  "wf_Model sample_Model \<and> geometry sample_Model = PGeometry sample_Geometry \<and>
   materials sample_Model = PMaterials [] \<and>
   fst (export_to_xml sample_Model empty_world) = None \<and>
   files (snd (export_to_xml sample_Model empty_world)) ''materials.xml'' =
     Some (XML (PMaterials [Material 1, Material 2])) \<and>
   wf_Model (sample_Model\<lparr>materials := PMaterials [Material 9]\<rparr>) \<and>
   files (snd (export_to_xml (sample_Model\<lparr>materials := PMaterials [Material 9]\<rparr>) empty_world))
     ''materials.xml'' = Some (XML (PMaterials [Material 9]))"
proof -
  have wf: "wf_Model sample_Model" "wf_Model (sample_Model\<lparr>materials := PMaterials [Material 9]\<rparr>)"
    by (simp_all add: wf_Model_def sample_Model_def isinstance_def)
  have g: "geometry sample_Model = PGeometry sample_Geometry"
    "geometry (sample_Model\<lparr>materials := PMaterials [Material 9]\<rparr>) = PGeometry sample_Geometry"
    by (simp_all add: sample_Model_def)
  from export_materials [OF wf(1) g(1), of empty_world]
    export_materials [OF wf(2) g(2), of empty_world] wf g
  show ?thesis by (simp add: sample_Model_def sample_Geometry_def)
qed

text \<open>
  Claim C4. \<open>export_to_xml\<close> writes \<open>tallies.xml\<close> exactly when the tallies collection is
  not empty, \<open>plots.xml\<close> exactly when the plots collection is not empty, and \<open>cmfd.xml\<close>
  exactly when \<open>cmfd\<close> is not \<open>None\<close>.
\<close>

theorem export_optional_files:
  "wf_Model m \<Longrightarrow>
   (Wrote ''tallies.xml'' \<in> set (emitted w (snd (export_to_xml m w))) \<longleftrightarrow>
      tallies m \<noteq> PTallies []) \<and>
   (Wrote ''plots.xml'' \<in> set (emitted w (snd (export_to_xml m w))) \<longleftrightarrow>
      plots m \<noteq> PPlots []) \<and>
   (Wrote ''cmfd.xml'' \<in> set (emitted w (snd (export_to_xml m w))) \<longleftrightarrow>
      cmfd m \<noteq> PNone)"
proof -
  assume wf: "wf_Model m"
  from wf obtain g ms s ts ps where sh:
    "geometry m = PGeometry g" "materials m = PMaterials ms" "settings m = PSettings s"
    "tallies m = PTallies ts" "plots m = PPlots ps" "cmfd m = PNone \<or> (\<exists>c. cmfd m = PCMFD c)"
    by (rule wf_Model_shape)
  from export_to_xml_trace [OF sh, of w] sh(4,5)
  show ?thesis by auto
qed

theorem export_optional_files_witness:
  "wf_Model sample_Model \<and>
   tallies sample_Model \<noteq> PTallies [] \<and>
   Wrote ''tallies.xml'' \<in> set (emitted empty_world (snd (export_to_xml sample_Model empty_world))) \<and>
   plots sample_Model = PPlots [] \<and>
   Wrote ''plots.xml'' \<notin> set (emitted empty_world (snd (export_to_xml sample_Model empty_world))) \<and>
   cmfd sample_Model = PNone \<and>
   Wrote ''cmfd.xml'' \<notin> set (emitted empty_world (snd (export_to_xml sample_Model empty_world)))"
proof -
  have wf: "wf_Model sample_Model"
    by (simp add: wf_Model_def sample_Model_def isinstance_def)
  from export_optional_files [OF wf, of empty_world] wf
  show ?thesis by (simp add: sample_Model_def)
qed

text \<open>
  Claim C9. \<open>export_to_xml\<close> always writes \<open>settings.xml\<close>, and writes \<open>geometry.xml\<close> if and
  only if \<open>settings.dagmc\<close> is false.
\<close>

theorem export_settings_and_geometry:
  "wf_Model m \<Longrightarrow> settings m = PSettings s \<Longrightarrow>
   fst (export_to_xml m w) = None \<and>
   Wrote ''settings.xml'' \<in> set (emitted w (snd (export_to_xml m w))) \<and>
   (Wrote ''geometry.xml'' \<in> set (emitted w (snd (export_to_xml m w))) \<longleftrightarrow> \<not> dagmc s)"
proof -
  assume wf: "wf_Model m" and s: "settings m = PSettings s"
  from wf obtain g ms s' ts ps where sh:
    "geometry m = PGeometry g" "materials m = PMaterials ms" "settings m = PSettings s'"
    "tallies m = PTallies ts" "plots m = PPlots ps" "cmfd m = PNone \<or> (\<exists>c. cmfd m = PCMFD c)"
    by (rule wf_Model_shape)
  from sh(3) s have [simp]: "s' = s" by simp
  from export_to_xml_trace [OF sh, of w]
  show ?thesis by auto
qed

theorem export_settings_and_geometry_witness:
  "wf_Model sample_Model \<and> settings sample_Model = PSettings sample_Settings \<and>
   \<not> dagmc sample_Settings \<and>
   fst (export_to_xml sample_Model empty_world) = None \<and>
   Wrote ''settings.xml'' \<in> set (emitted empty_world (snd (export_to_xml sample_Model empty_world))) \<and>
   Wrote ''geometry.xml'' \<in> set (emitted empty_world (snd (export_to_xml sample_Model empty_world))) \<and>
   wf_Model (sample_Model\<lparr>settings := PSettings (sample_Settings\<lparr>dagmc := True\<rparr>)\<rparr>) \<and>
   Wrote ''geometry.xml'' \<notin> set (emitted empty_world (snd (export_to_xml
      (sample_Model\<lparr>settings := PSettings (sample_Settings\<lparr>dagmc := True\<rparr>)\<rparr>) empty_world)))"
proof -
  have wf: "wf_Model sample_Model"
    "wf_Model (sample_Model\<lparr>settings := PSettings (sample_Settings\<lparr>dagmc := True\<rparr>)\<rparr>)"
    by (simp_all add: wf_Model_def sample_Model_def isinstance_def)
  have s: "settings sample_Model = PSettings sample_Settings"
    "settings (sample_Model\<lparr>settings := PSettings (sample_Settings\<lparr>dagmc := True\<rparr>)\<rparr>)
       = PSettings (sample_Settings\<lparr>dagmc := True\<rparr>)"
    by (simp_all add: sample_Model_def)
  from export_settings_and_geometry [OF wf(1) s(1), of empty_world]
    export_settings_and_geometry [OF wf(2) s(2), of empty_world] wf s
  show ?thesis by (simp add: sample_Settings_def)
qed

section \<open>Running\<close>

lemma str_int_5: "str_int 5 = ''5''"
  by (simp add: str_int_def str_nat.simps)

lemma str_int_10: "str_int 10 = ''10''"
  by (simp add: str_int_def str_nat.simps)

lemma trace_openmc_run [simp]: "trace (openmc_run solver kw w) = trace w @ [Ran kw]"
  by (simp add: openmc_run_def)

lemma files_openmc_run [simp]: "files (openmc_run solver kw w) = solver kw (files w)"
  by (simp add: openmc_run_def)

lemma StatePoint_k_combined_eq:
  "StatePoint_k_combined name w =
     (case files w name of Some (H5 k) \<Rightarrow> Inr k | _ \<Rightarrow> Inl IOError,
      w\<lparr>trace := trace w @ [Opened name]\<rparr>)"
  by (simp add: StatePoint_k_combined_def split: option.splits filedata.splits)

lemma statepoint_n_Settings:
  "statepoint_n (PSettings s) = Inr n \<Longrightarrow>
     n = (case statepoint s of
            None \<Rightarrow> batches s
          | Some d \<Rightarrow> (case map_of d ''batches'' of
                        None \<Rightarrow> batches s
                      | Some bs \<Rightarrow> Some (last bs)))"
  by (auto simp: statepoint_n_def split: option.splits if_splits)

text \<open>
  The batch number is defined unless \<open>settings.statepoint\<close> is a dictionary whose entry
  \<open>'batches'\<close> is an empty list; in that case, and in no other, reading it raises.
\<close>

lemma statepoint_n_defined_iff:
  "(\<exists>n. statepoint_n (PSettings s) = Inr n) \<longleftrightarrow>
     \<not> (\<exists>d. statepoint s = Some d \<and> map_of d ''batches'' = Some [])"
  by (auto simp: statepoint_n_def split: option.splits)

lemma statepoint_n_undefined:
  "statepoint s = Some d \<Longrightarrow> map_of d ''batches'' = Some [] \<Longrightarrow>
     statepoint_n (PSettings s) = Inl IndexError"
  by (simp add: statepoint_n_def)

lemma export_to_xml_wf:
  assumes "wf_Model m"
  shows "fst (export_to_xml m w) = None"
    and "\<exists>es. trace (snd (export_to_xml m w)) = trace w @ es \<and> list_all is_write es \<and> es \<noteq> []"
proof -
  from assms obtain g ms s ts ps where sh:
    "geometry m = PGeometry g" "materials m = PMaterials ms" "settings m = PSettings s"
    "tallies m = PTallies ts" "plots m = PPlots ps" "cmfd m = PNone \<or> (\<exists>c. cmfd m = PCMFD c)"
    by (rule wf_Model_shape)
  from export_to_xml_trace [OF sh, of w]
  show "fst (export_to_xml m w) = None" by simp
  from export_to_xml_trace [OF sh, of w]
  show "\<exists>es. trace (snd (export_to_xml m w)) = trace w @ es \<and> list_all is_write es \<and> es \<noteq> []"
    by simp
qed

lemma run_wf:
  assumes "wf_Model m" and "statepoint_n (settings m) = Inr n"
  shows "run solver m kw w =
     StatePoint_k_combined (''statepoint.'' @ format_n n @ ''.h5'')
       (openmc_run solver kw (snd (export_to_xml m w)))"
  using export_to_xml_wf(1) [OF assms(1), of w] assms(2)
  by (cases "export_to_xml m w") (simp add: run_def)

section \<open>Claims about \<open>run\<close>\<close>

text \<open>
  Claim C2, as amended. For every model whose batch number \<open>n\<close> is defined, that is, whose
  \<open>settings.statepoint\<close> is \<open>None\<close>, has no entry \<open>'batches'\<close>, or has a non-empty one,
  \<open>Model.run\<close> invokes the external solver on the exported files and then reads the
  statepoint file \<open>statepoint.<n>.h5\<close>, where \<open>n\<close> is the last entry of
  \<open>settings.statepoint['batches']\<close> when there is such an entry and \<open>settings.batches\<close>
  otherwise. It returns the combined k-effective stored in that file; when the solver has
  left no statepoint file of that name, the reader raises.
\<close>

theorem run_returns_k_combined:
  "wf_Model m \<Longrightarrow> settings m = PSettings s \<Longrightarrow> statepoint_n (settings m) = Inr n \<Longrightarrow>
   n = (case statepoint s of
          None \<Rightarrow> batches s
        | Some d \<Rightarrow> (case map_of d ''batches'' of
                      None \<Rightarrow> batches s
                    | Some bs \<Rightarrow> Some (last bs))) \<and>
   files (snd (run solver m kw w)) = solver kw (files (snd (export_to_xml m w))) \<and>
   fst (run solver m kw w) =
     (case files (snd (run solver m kw w)) (''statepoint.'' @ format_n n @ ''.h5'') of
        Some (H5 k) \<Rightarrow> Inr k
      | _ \<Rightarrow> Inl IOError)"
proof -
  assume wf: "wf_Model m" and s: "settings m = PSettings s"
    and n: "statepoint_n (settings m) = Inr n"
  from n s have "n = (case statepoint s of
          None \<Rightarrow> batches s
        | Some d \<Rightarrow> (case map_of d ''batches'' of
                      None \<Rightarrow> batches s
                    | Some bs \<Rightarrow> Some (last bs)))"
    by (simp add: statepoint_n_Settings)
  then show ?thesis
    by (simp add: run_wf [OF wf n] StatePoint_k_combined_eq)
qed

lemma statepoint_n_sample: "statepoint_n (settings sample_Model) = Inr (Some 5)"
  by (simp add: statepoint_n_def sample_Model_def sample_Settings_def)

theorem run_returns_k_combined_witness:
  "wf_Model sample_Model \<and> settings sample_Model = PSettings sample_Settings \<and>
   statepoint_n (settings sample_Model) = Inr (Some 5) \<and>
   fst (run sample_solver sample_Model [] empty_world) = Inr (1, 0)"
proof -
  have wf: "wf_Model sample_Model" by (rule wf_sample_Model)
  have s: "settings sample_Model = PSettings sample_Settings" by (simp add: sample_Model_def)
  from run_returns_k_combined [OF wf s statepoint_n_sample, of sample_solver "[]" empty_world]
    wf s statepoint_n_sample
  show ?thesis by (simp add: sample_solver_def str_int_5)
qed

text \<open>
  The claim C2 as it is written names the file after \<open>settings.batches\<close>. With 10 batches
  and statepoints asked for at batch 5, the solver leaves both files; \<open>run\<close> returns the
  value of \<open>statepoint.5.h5\<close> and never opens \<open>statepoint.10.h5\<close>.
\<close>

theorem run_statepoint_name_counterexample:
  "wf_Model sample_Model \<and>
   settings sample_Model = PSettings sample_Settings \<and> batches sample_Settings = Some 10 \<and>
   files (snd (run sample_solver sample_Model [] empty_world)) ''statepoint.10.h5'' = Some (H5 (2, 0)) \<and>
   fst (run sample_solver sample_Model [] empty_world) = Inr (1, 0) \<and>
   Opened ''statepoint.5.h5'' \<in> set (trace (snd (run sample_solver sample_Model [] empty_world))) \<and>
   Opened ''statepoint.10.h5'' \<notin> set (trace (snd (run sample_solver sample_Model [] empty_world)))"
proof -
  have wf: "wf_Model sample_Model" by (rule wf_sample_Model)
  have s: "settings sample_Model = PSettings sample_Settings" by (simp add: sample_Model_def)
  obtain es where es: "trace (snd (export_to_xml sample_Model empty_world)) = trace empty_world @ es"
    "list_all is_write es"
    using export_to_xml_wf(2) [OF wf, of empty_world] by blast
  have "Opened ''statepoint.10.h5'' \<notin> set es" "Opened ''statepoint.5.h5'' \<notin> set es"
    using es(2) by (auto simp: list_all_iff)
  with es(1) wf s show ?thesis
    by (simp add: run_wf [OF wf statepoint_n_sample] StatePoint_k_combined_eq
        sample_solver_def str_int_5 sample_Settings_def empty_world_def)
qed





end
